theory Spec2Isabelle
  imports Main "HOL-Library.Word"
begin

section \<open>Data model of the shader compiler driver\<close>

text \<open>
  The driver (\<^verbatim>\<open>src/compiler/src/main.cpp\<close>) parses its arguments, loads the shader
  text from a file or from standard input, calls the shaderc library and writes either
  the binary module to standard output or a diagnostic to standard error.

  The stage enumerators below are the seven that the driver names.
\<close>

datatype shaderc_shader_kind =
    shaderc_vertex_shader
  | shaderc_fragment_shader
  | shaderc_compute_shader
  | shaderc_geometry_shader
  | shaderc_tess_control_shader
  | shaderc_tess_evaluation_shader
  | shaderc_glsl_infer_from_source

text \<open>
  The optimization presets of the library; the driver only ever names the last one.
  A freshly constructed \<^verbatim>\<open>shaderc::CompileOptions\<close> has no level set, which is
  \<open>None\<close> here.
\<close>

datatype shaderc_optimization_level =
    shaderc_optimization_level_zero
  | shaderc_optimization_level_size
  | shaderc_optimization_level_performance

record CompileOptions =
  optimization_level :: "shaderc_optimization_level option"

text \<open>
  What a \<^verbatim>\<open>shaderc::SpvCompilationResult\<close> gives the driver: the status (a C
  enumeration, printed as the integer it promotes to), the error message, and the
  32-bit words between \<^verbatim>\<open>cbegin()\<close> and \<^verbatim>\<open>cend()\<close>.
\<close>

record SpvCompilationResult =
  GetCompilationStatus :: int
  GetErrorMessage :: string
  spirv_words :: "32 word list"

text \<open>The four local variables that the argument loop of \<^verbatim>\<open>main\<close> sets.\<close>

record options =
  shaderKind :: shaderc_shader_kind
  optimize :: bool
  inputName :: string
  inputFile :: string

datatype endianness = LittleEndian | BigEndian

text \<open>
  Everything outside the program that \<^verbatim>\<open>main\<close> reads or calls:
  \<^item> \<open>open_file p\<close> is \<open>None\<close> when \<^verbatim>\<open>std::ifstream file(p)\<close> fails to open, and
    otherwise the characters that the opened stream delivers up to its end;
  \<^item> \<open>stdin_contents\<close> is what \<^verbatim>\<open>std::cin\<close> delivers up to end-of-stream;
  \<^item> \<open>CompileGlslToSpv\<close> is the library's compilation entry point, and
    \<open>shaderc_compilation_status_success\<close> the value of the library's enumerator of
    that name (the library's header is not part of this repository);
  \<^item> \<open>byte_order\<close> is the byte order of the machine, which decides what
    \<^verbatim>\<open>reinterpret_cast<const char*>\<close> of a word array reads.
\<close>

record environment =
  open_file :: "string \<Rightarrow> string option"
  stdin_contents :: string
  CompileGlslToSpv ::
    "string \<Rightarrow> shaderc_shader_kind \<Rightarrow> string \<Rightarrow> CompileOptions \<Rightarrow> SpvCompilationResult"
  shaderc_compilation_status_success :: int
  byte_order :: endianness

text \<open>
  The observable effects of a run, in the order in which they happen. Each insertion
  \<^verbatim>\<open><<\<close> into \<^verbatim>\<open>std::cerr\<close> is one \<open>StderrWrite\<close>; \<^verbatim>\<open>std::endl\<close> is the write of a
  newline followed by a flush. The output streams are taken to accept what is written to
  them, and standard output to pass bytes through unchanged (the driver puts it into
  binary mode where the platform distinguishes text from binary).
\<close>

datatype event =
    OpenFile string
  | ReadFile string
  | ReadStdin
  | StderrWrite string
  | StderrFlush
  | Compile string shaderc_shader_kind string CompileOptions
  | StdoutWrite "8 word list"

record outcome =
  trace :: "event list"
  exit_code :: int

section \<open>The stage mapping\<close>

definition getShaderKind :: "string \<Rightarrow> shaderc_shader_kind" where
  "getShaderKind type =
     (if type = ''vertex'' then shaderc_vertex_shader
      else if type = ''fragment'' then shaderc_fragment_shader
      else if type = ''compute'' then shaderc_compute_shader
      else if type = ''geometry'' then shaderc_geometry_shader
      else if type = ''tess_control'' then shaderc_tess_control_shader
      else if type = ''tess_evaluation'' then shaderc_tess_evaluation_shader
      else shaderc_glsl_infer_from_source)"

section \<open>Argument parsing\<close>

definition default_options :: options where
  "default_options =
     \<lparr>shaderKind = shaderc_glsl_infer_from_source, optimize = False,
      inputName = ''shader'', inputFile = []\<rparr>"

text \<open>
  The loop \<^verbatim>\<open>for (int i = 1; i < argc; i++)\<close>, as a recursion on the arguments that
  are left, \<open>argv[i], ..., argv[argc - 1]\<close>. The test \<^verbatim>\<open>i + 1 < argc\<close> is that an
  argument follows; \<^verbatim>\<open>argv[++i]\<close> takes it, so that the loop goes on after it.
\<close>

fun parse_args :: "string list \<Rightarrow> options \<Rightarrow> options" where
  "parse_args [] opts = opts"
| "parse_args [arg] opts =
     (if arg = ''-O'' then opts\<lparr>optimize := True\<rparr> else opts)"
| "parse_args (arg # next # rest) opts =
     (if arg = ''-t'' then parse_args rest (opts\<lparr>shaderKind := getShaderKind next\<rparr>)
      else if arg = ''-O'' then parse_args (next # rest) (opts\<lparr>optimize := True\<rparr>)
      else if arg = ''-n'' then parse_args rest (opts\<lparr>inputName := next\<rparr>)
      else if arg = ''-f'' then parse_args rest (opts\<lparr>inputFile := next\<rparr>)
      else parse_args (next # rest) opts)"

section \<open>Output formatting\<close>

definition digit_char :: "nat \<Rightarrow> char" where
  "digit_char d = ''0123456789'' ! (d mod 10)"

fun show_nat :: "nat \<Rightarrow> string" where
  "show_nat n = (if n < 10 then [digit_char n] else show_nat (n div 10) @ [digit_char (n mod 10)])"

text \<open>\<^verbatim>\<open>operator<<(int)\<close> with the stream's default formatting: decimal, a minus sign
  for a negative value, no padding.\<close>

definition show_int :: "int \<Rightarrow> string" where
  "show_int i = (if i < 0 then CHR ''-'' # show_nat (nat (- i)) else show_nat (nat i))"

definition newline :: char where
  "newline = CHR 0x0A"

definition dquote :: char where
  "dquote = CHR 0x22"

text \<open>One line on \<^verbatim>\<open>std::cerr\<close>: the insertions in order, then \<^verbatim>\<open>std::endl\<close>.\<close>

definition cerr_line :: "string list \<Rightarrow> event list" where
  "cerr_line parts = map StderrWrite parts @ [StderrWrite [newline], StderrFlush]"

text \<open>The four bytes of a word in memory, from the lowest address.\<close>

definition word_bytes :: "endianness \<Rightarrow> 32 word \<Rightarrow> 8 word list" where
  "word_bytes e w =
     (let le = [ucast w, ucast (drop_bit 8 w), ucast (drop_bit 16 w), ucast (drop_bit 24 w)]
      in case e of LittleEndian \<Rightarrow> le | BigEndian \<Rightarrow> rev le)"

definition spirv_bytes :: "endianness \<Rightarrow> 32 word list \<Rightarrow> 8 word list" where
  "spirv_bytes e ws = concat (map (word_bytes e) ws)"

section \<open>The driver\<close>

text \<open>Lines 64 to 97: the check of the source buffer, the compilation and the output.\<close>

definition compile_source :: "environment \<Rightarrow> options \<Rightarrow> event list \<Rightarrow> string \<Rightarrow> outcome" where
  "compile_source env opts tr shaderSource =
     (if shaderSource = [] then
        \<lparr>trace = tr @ cerr_line [''Error: No shader source provided''], exit_code = 1\<rparr>
      else
        let copts = (if optimize opts
                     then \<lparr>optimization_level = Some shaderc_optimization_level_performance\<rparr>
                     else \<lparr>optimization_level = None\<rparr>);
            result = CompileGlslToSpv env shaderSource (shaderKind opts) (inputName opts) copts;
            tr' = tr @ [Compile shaderSource (shaderKind opts) (inputName opts) copts];
            status = GetCompilationStatus result
        in if status \<noteq> shaderc_compilation_status_success env then
             \<lparr>trace = tr'
                @ cerr_line [''Compilation error (status code: '', show_int status, '')'']
                @ cerr_line [''Error message: '' @ [dquote], GetErrorMessage result, [dquote]]
                @ [StderrFlush],
              exit_code = 1\<rparr>
           else
             \<lparr>trace = tr' @ [StdoutWrite (spirv_bytes (byte_order env) (spirv_words result))],
              exit_code = 0\<rparr>)"

text \<open>
  \<^verbatim>\<open>main\<close>. \<open>argv\<close> is the whole argument vector; the loop starts at index 1.
\<close>

definition main :: "environment \<Rightarrow> string list \<Rightarrow> outcome" where
  "main env argv =
     (let opts = parse_args (drop 1 argv) default_options in
      if inputFile opts \<noteq> [] then
        (case open_file env (inputFile opts) of
           None \<Rightarrow>
             \<lparr>trace = OpenFile (inputFile opts)
                # cerr_line [''Error: Could not open file: '', inputFile opts],
              exit_code = 1\<rparr>
         | Some contents \<Rightarrow>
             compile_source env opts [OpenFile (inputFile opts), ReadFile (inputFile opts)] contents)
      else compile_source env opts [ReadStdin] (stdin_contents env))"

section \<open>Reading a trace\<close>

fun stdout_of :: "event list \<Rightarrow> 8 word list" where
  "stdout_of [] = []"
| "stdout_of (StdoutWrite bs # es) = bs @ stdout_of es"
| "stdout_of (_ # es) = stdout_of es"

fun stderr_of :: "event list \<Rightarrow> string" where
  "stderr_of [] = []"
| "stderr_of (StderrWrite s # es) = s @ stderr_of es"
| "stderr_of (_ # es) = stderr_of es"

fun is_Compile :: "event \<Rightarrow> bool" where
  "is_Compile (Compile _ _ _ _) = True"
| "is_Compile _ = False"

fun is_OpenFile :: "event \<Rightarrow> bool" where
  "is_OpenFile (OpenFile _) = True"
| "is_OpenFile _ = False"

section \<open>Flags and the values they consume\<close>

text \<open>
  The vocabulary of the command-line interface, written independently of the loop:
  \<open>-t\<close>, \<open>-n\<close> and \<open>-f\<close> take a value, namely the argument that follows them;
  an argument taken as a value is not looked at as a flag.
\<close>

definition takes_value :: "string \<Rightarrow> bool" where
  "takes_value a \<longleftrightarrow> a = ''-t'' \<or> a = ''-n'' \<or> a = ''-f''"

text \<open>The arguments that stand as flags: those not consumed as the value of a flag.\<close>

fun flag_args :: "string list \<Rightarrow> string list" where
  "flag_args [] = []"
| "flag_args [a] = [a]"
| "flag_args (a # v # rest) =
     (if takes_value a then a # flag_args rest else a # flag_args (v # rest))"

text \<open>
  \<open>value_pending pre\<close>: the list \<open>pre\<close> ends in a value-taking flag that has not
  got its value, so that an argument put after \<open>pre\<close> would be consumed as that value.
\<close>

fun value_pending :: "string list \<Rightarrow> bool" where
  "value_pending [] = False"
| "value_pending [a] = takes_value a"
| "value_pending (a # v # rest) =
     (if takes_value a then value_pending rest else value_pending (v # rest))"

text \<open>
  \<open>flag_values f args\<close>: the values given with the flag \<open>f\<close>, in the order of the
  arguments. A value counts when \<open>f\<close> stands as a flag and an argument follows it. The
  last of them is the value in force.
\<close>

fun flag_values :: "string \<Rightarrow> string list \<Rightarrow> string list" where
  "flag_values f [] = []"
| "flag_values f [a] = []"
| "flag_values f (a # v # rest) =
     (if takes_value a then (if a = f then v # flag_values f rest else flag_values f rest)
      else flag_values f (v # rest))"

text \<open>
  \<open>without_flag f args\<close>: the arguments with the flag \<open>f\<close> omitted, that is, without
  every \<open>f\<close> that stands as a flag and without the value it consumes.
\<close>

fun without_flag :: "string \<Rightarrow> string list \<Rightarrow> string list" where
  "without_flag f [] = []"
| "without_flag f [a] = (if a = f then [] else [a])"
| "without_flag f (a # v # rest) =
     (if takes_value a then (if a = f then without_flag f rest else a # v # without_flag f rest)
      else if a = f then without_flag f (v # rest)
      else a # without_flag f (v # rest))"

section \<open>A sample environment\<close>

text \<open>
  A little-endian machine with two readable files (one of them empty), a shader on
  standard input, and a library that accepts exactly that shader.
\<close>

definition sample_env :: environment where
  "sample_env =
     \<lparr>open_file = (\<lambda>p. if p = ''tri.vert'' then Some ''void main(){}''
                       else if p = ''empty.vert'' then Some []
                       else None),
      stdin_contents = ''void main(){}'',
      CompileGlslToSpv = (\<lambda>src kind name copts.
         if src = ''void main(){}''
         then \<lparr>GetCompilationStatus = 0, GetErrorMessage = [],
               spirv_words = [0x07230203, 0x00010000]\<rparr>
         else \<lparr>GetCompilationStatus = 2, GetErrorMessage = name @ '':1: error: syntax error'',
               spirv_words = []\<rparr>),
      shaderc_compilation_status_success = 0,
      byte_order = LittleEndian\<rparr>"

section \<open>The stage mapping, proved\<close>

lemma getShaderKind_tokens:
  "getShaderKind ''vertex'' = shaderc_vertex_shader"
  "getShaderKind ''fragment'' = shaderc_fragment_shader"
  "getShaderKind ''compute'' = shaderc_compute_shader"
  "getShaderKind ''geometry'' = shaderc_geometry_shader"
  "getShaderKind ''tess_control'' = shaderc_tess_control_shader"
  "getShaderKind ''tess_evaluation'' = shaderc_tess_evaluation_shader"
  by (simp_all add: getShaderKind_def)

section \<open>Facts about the argument loop\<close>

lemma parse_args_append:
  "\<not> value_pending pre \<Longrightarrow> parse_args (pre @ post) opts = parse_args post (parse_args pre opts)"
proof (induction pre arbitrary: opts rule: value_pending.induct)
  case 1
  then show ?case by simp
next
  case (2 a)
  then show ?case by (cases post) (auto simp: takes_value_def)
next
  case (3 a v rest)
  then show ?case by (auto simp: takes_value_def split: if_splits)
qed

lemma set_flag_args: "set (flag_args args) \<subseteq> set args"
  by (induction args rule: flag_args.induct) auto

lemma optimize_parse_args:
  "optimize (parse_args args opts) \<longleftrightarrow> optimize opts \<or> ''-O'' \<in> set (flag_args args)"
  by (induction args opts rule: parse_args.induct) (auto simp: takes_value_def)

lemma inputName_parse_args:
  "''-n'' \<notin> set (flag_args args) \<Longrightarrow> inputName (parse_args args opts) = inputName opts"
  by (induction args opts rule: parse_args.induct) (auto simp: takes_value_def)

lemma inputFile_parse_args:
  "''-f'' \<notin> set (flag_args args) \<Longrightarrow> inputFile (parse_args args opts) = inputFile opts"
  by (induction args opts rule: parse_args.induct) (auto simp: takes_value_def)

lemma shaderKind_parse_args:
  "''-t'' \<notin> set (flag_args args) \<Longrightarrow> shaderKind (parse_args args opts) = shaderKind opts"
  by (induction args opts rule: parse_args.induct) (auto simp: takes_value_def)

text \<open>The path in force after the loop is the last value given with \<^verbatim>\<open>-f\<close>.\<close>

lemma inputFile_flag_values:
  "inputFile (parse_args args opts)
     = (if flag_values ''-f'' args = [] then inputFile opts else last (flag_values ''-f'' args))"
  by (induction args arbitrary: opts rule: flag_args.induct) (auto simp: takes_value_def)

lemma flag_values_append:
  "\<not> value_pending pre \<Longrightarrow> flag_values f (pre @ post) = flag_values f pre @ flag_values f post"
proof (induction pre rule: value_pending.induct)
  case 1
  then show ?case by simp
next
  case (2 a)
  then show ?case by (cases post) auto
next
  case (3 a v rest)
  then show ?case by (auto split: if_splits)
qed

section \<open>Facts about traces and output\<close>

lemma stdout_of_append: "stdout_of (xs @ ys) = stdout_of xs @ stdout_of ys"
  by (induction xs rule: stdout_of.induct) auto

lemma stderr_of_append: "stderr_of (xs @ ys) = stderr_of xs @ stderr_of ys"
  by (induction xs rule: stderr_of.induct) auto

lemma stdout_of_cerr_line: "stdout_of (cerr_line parts) = []"
  by (induction parts) (auto simp: cerr_line_def)

lemma stderr_of_cerr_line: "stderr_of (cerr_line parts) = concat parts @ [newline]"
  by (induction parts) (auto simp: cerr_line_def)

lemma is_Compile_cerr_line: "filter is_Compile (cerr_line parts) = []"
  by (induction parts) (auto simp: cerr_line_def)

lemma Compile_notin_cerr_line: "Compile s k n c \<notin> set (cerr_line parts)"
  by (auto simp: cerr_line_def)

lemma length_word_bytes: "length (word_bytes e w) = 4"
  by (cases e) (simp_all add: word_bytes_def)

lemma length_spirv_bytes: "length (spirv_bytes e ws) = 4 * length ws"
  by (induction ws) (simp_all add: spirv_bytes_def length_word_bytes)

text \<open>
  The serialisation loses nothing: the bytes written determine the words, whatever the
  byte order.
\<close>

lemma bytes_determine_word:
  fixes w w' :: "32 word"
  assumes b0: "(ucast w :: 8 word) = ucast w'"
    and b1: "(ucast (drop_bit 8 w) :: 8 word) = ucast (drop_bit 8 w')"
    and b2: "(ucast (drop_bit 16 w) :: 8 word) = ucast (drop_bit 16 w')"
    and b3: "(ucast (drop_bit 24 w) :: 8 word) = ucast (drop_bit 24 w')"
  shows "w = w'"
proof (rule bit_word_eqI)
  fix n :: nat
  assume "n < LENGTH(32)"
  then have n: "n < 32" by simp
  have byte: "bit w (k + m) = bit w' (k + m)"
    if "(ucast (drop_bit k w) :: 8 word) = ucast (drop_bit k w')" and "m < 8" for k m
  proof -
    from that(1) have "bit (ucast (drop_bit k w) :: 8 word) m = bit (ucast (drop_bit k w') :: 8 word) m"
      by simp
    with that(2) show ?thesis
      by (simp add: bit_ucast_iff bit_drop_bit_eq)
  qed
  consider "n < 8" | "8 \<le> n" "n < 16" | "16 \<le> n" "n < 24" | "24 \<le> n" "n < 32"
    using n by linarith
  then show "bit w n = bit w' n"
  proof cases
    case 1
    with byte [of 0 n] b0 show ?thesis by simp
  next
    case 2
    with byte [of 8 "n - 8"] b1 show ?thesis by simp
  next
    case 3
    with byte [of 16 "n - 16"] b2 show ?thesis by simp
  next
    case 4
    with byte [of 24 "n - 24"] b3 show ?thesis by simp
  qed
qed

lemma word_bytes_inject: "word_bytes e w = word_bytes e w' \<Longrightarrow> w = w'"
  by (cases e) (auto simp: word_bytes_def intro: bytes_determine_word)

lemma spirv_bytes_inject:
  assumes "spirv_bytes e ws = spirv_bytes e ws'"
  shows "ws = ws'"
proof -
  have "length ws = length ws'"
    using assms length_spirv_bytes [of e ws] length_spirv_bytes [of e ws'] by simp
  then show ?thesis
    using assms
  proof (induction ws ws' rule: list_induct2)
    case Nil
    show ?case by simp
  next
    case (Cons w ws w' ws')
    from Cons.prems
    have "word_bytes e w @ spirv_bytes e ws = word_bytes e w' @ spirv_bytes e ws'"
      by (simp add: spirv_bytes_def)
    then have "word_bytes e w = word_bytes e w'" and "spirv_bytes e ws = spirv_bytes e ws'"
      by (simp_all add: length_word_bytes)
    with Cons.IH show ?case
      by (simp add: word_bytes_inject)
  qed
qed

section \<open>Successful compilation\<close>



section \<open>Failed compilation\<close>

text \<open>
  Claim C2. Whenever a run calls the library and the library reports a status other than
  success, standard error holds the line with the status as a decimal number and the line
  with the library's message between double quotes, unchanged; the last effect of the run
  is a flush of standard error; the exit code is 1; and standard output holds nothing.
\<close>

theorem main_compile_error:
  assumes "Compile src kind name copts \<in> set (trace (main env argv))"
    and "GetCompilationStatus (CompileGlslToSpv env src kind name copts)
           \<noteq> shaderc_compilation_status_success env"
  shows "stderr_of (trace (main env argv))
           = ''Compilation error (status code: ''
             @ show_int (GetCompilationStatus (CompileGlslToSpv env src kind name copts))
             @ '')'' @ [newline]
             @ ''Error message: '' @ [dquote]
             @ GetErrorMessage (CompileGlslToSpv env src kind name copts)
             @ [dquote] @ [newline]
       \<and> last (trace (main env argv)) = StderrFlush
       \<and> exit_code (main env argv) = 1
       \<and> stdout_of (trace (main env argv)) = []"
  using assms
  by (auto simp: main_def compile_source_def Let_def stdout_of_append stdout_of_cerr_line
      stderr_of_append stderr_of_cerr_line
      Compile_notin_cerr_line split: option.splits if_splits)

theorem main_compile_error_witness:
  "Compile ''void main('' shaderc_glsl_infer_from_source ''bad.frag'' \<lparr>optimization_level = None\<rparr>
     \<in> set (trace (main (sample_env\<lparr>stdin_contents := ''void main(''\<rparr>) [''shaderc'', ''-n'', ''bad.frag'']))
   \<and> GetCompilationStatus (CompileGlslToSpv (sample_env\<lparr>stdin_contents := ''void main(''\<rparr>)
         ''void main('' shaderc_glsl_infer_from_source ''bad.frag'' \<lparr>optimization_level = None\<rparr>)
       \<noteq> shaderc_compilation_status_success (sample_env\<lparr>stdin_contents := ''void main(''\<rparr>)
   \<and> stderr_of (trace (main (sample_env\<lparr>stdin_contents := ''void main(''\<rparr>) [''shaderc'', ''-n'', ''bad.frag'']))
       = ''Compilation error (status code: 2)'' @ [newline]
         @ ''Error message: '' @ [dquote] @ ''bad.frag:1: error: syntax error'' @ [dquote] @ [newline]
   \<and> last (trace (main (sample_env\<lparr>stdin_contents := ''void main(''\<rparr>) [''shaderc'', ''-n'', ''bad.frag'']))
       = StderrFlush
   \<and> exit_code (main (sample_env\<lparr>stdin_contents := ''void main(''\<rparr>) [''shaderc'', ''-n'', ''bad.frag'']) = 1
   \<and> stdout_of (trace (main (sample_env\<lparr>stdin_contents := ''void main(''\<rparr>) [''shaderc'', ''-n'', ''bad.frag''])) = []"
proof -
  let ?env = "sample_env\<lparr>stdin_contents := ''void main(''\<rparr>"
  have run: "Compile ''void main('' shaderc_glsl_infer_from_source ''bad.frag'' \<lparr>optimization_level = None\<rparr>
     \<in> set (trace (main ?env [''shaderc'', ''-n'', ''bad.frag'']))"
    by (simp add: main_def compile_source_def sample_env_def default_options_def)
  have bad: "GetCompilationStatus (CompileGlslToSpv ?env
         ''void main('' shaderc_glsl_infer_from_source ''bad.frag'' \<lparr>optimization_level = None\<rparr>)
       \<noteq> shaderc_compilation_status_success ?env"
    by (simp add: sample_env_def)
  have res: "CompileGlslToSpv sample_env ''void main('' shaderc_glsl_infer_from_source ''bad.frag''
        \<lparr>optimization_level = None\<rparr>
      = \<lparr>GetCompilationStatus = 2, GetErrorMessage = ''bad.frag:1: error: syntax error'',
         spirv_words = []\<rparr>"
    by (simp add: sample_env_def)
  have two: "show_int 2 = ''2''"
    by (simp add: show_int_def digit_char_def)
  show ?thesis
    using main_compile_error [OF run bad] run bad by (simp add: res two)
qed

section \<open>Empty source\<close>

text \<open>
  Claim C3. When the source buffer is empty, because no file is named and standard input
  delivers nothing, or because the named file opens and delivers nothing, the run exits
  with code 1, standard error holds exactly the line
  \<^verbatim>\<open>Error: No shader source provided\<close> (the message and the line end of
  \<^verbatim>\<open>std::endl\<close>), standard output holds nothing, and the library is not called.
\<close>

theorem main_empty_source:
  assumes "inputFile (parse_args (drop 1 argv) default_options) = [] \<and> stdin_contents env = []
         \<or> inputFile (parse_args (drop 1 argv) default_options) \<noteq> []
           \<and> open_file env (inputFile (parse_args (drop 1 argv) default_options)) = Some []"
  shows "exit_code (main env argv) = 1
       \<and> stderr_of (trace (main env argv)) = ''Error: No shader source provided'' @ [newline]
       \<and> stdout_of (trace (main env argv)) = []
       \<and> filter is_Compile (trace (main env argv)) = []"
  using assms
  by (auto simp: main_def compile_source_def Let_def stdout_of_cerr_line stderr_of_cerr_line
      is_Compile_cerr_line)

theorem main_empty_source_witness:
  "inputFile (parse_args (drop 1 [''shaderc'', ''-f'', ''empty.vert'']) default_options) \<noteq> []
 \<and> open_file sample_env
      (inputFile (parse_args (drop 1 [''shaderc'', ''-f'', ''empty.vert'']) default_options))
     = Some []
 \<and> exit_code (main sample_env [''shaderc'', ''-f'', ''empty.vert'']) = 1
 \<and> stderr_of (trace (main sample_env [''shaderc'', ''-f'', ''empty.vert'']))
     = ''Error: No shader source provided'' @ [newline]
 \<and> stdout_of (trace (main sample_env [''shaderc'', ''-f'', ''empty.vert''])) = []
 \<and> filter is_Compile (trace (main sample_env [''shaderc'', ''-f'', ''empty.vert''])) = []
 \<and> inputFile (parse_args (drop 1 [''shaderc'', ''-O'']) default_options) = []
 \<and> stdin_contents (sample_env\<lparr>stdin_contents := []\<rparr>) = []
 \<and> exit_code (main (sample_env\<lparr>stdin_contents := []\<rparr>) [''shaderc'', ''-O'']) = 1
 \<and> stderr_of (trace (main (sample_env\<lparr>stdin_contents := []\<rparr>) [''shaderc'', ''-O'']))
     = ''Error: No shader source provided'' @ [newline]
 \<and> stdout_of (trace (main (sample_env\<lparr>stdin_contents := []\<rparr>) [''shaderc'', ''-O''])) = []
 \<and> filter is_Compile (trace (main (sample_env\<lparr>stdin_contents := []\<rparr>) [''shaderc'', ''-O''])) = []"
proof -
  have from_file: "inputFile (parse_args (drop 1 [''shaderc'', ''-f'', ''empty.vert'']) default_options) \<noteq> []
      \<and> open_file sample_env
           (inputFile (parse_args (drop 1 [''shaderc'', ''-f'', ''empty.vert'']) default_options))
         = Some []"
    by (simp add: sample_env_def)
  have from_stdin: "inputFile (parse_args (drop 1 [''shaderc'', ''-O'']) default_options) = []
      \<and> stdin_contents (sample_env\<lparr>stdin_contents := []\<rparr>) = []"
    by (simp add: default_options_def)
  show ?thesis
    using main_empty_source [of "[''shaderc'', ''-f'', ''empty.vert'']" sample_env]
      main_empty_source [of "[''shaderc'', ''-O'']" "sample_env\<lparr>stdin_contents := []\<rparr>"]
      from_file from_stdin
    by blast
qed

section \<open>A file that does not open\<close>

text \<open>
  A path given with \<^verbatim>\<open>-f\<close> that does not open is not reported when a later \<^verbatim>\<open>-f\<close>
  replaces it: with \<^verbatim>\<open>-f missing.frag -f tri.vert\<close> only the second file is opened, and
  the run succeeds without a message. Nor is it reported when the path is the empty
  string, which the driver takes as no path at all.
\<close>

theorem open_failure_counterexample:
  "open_file sample_env ''missing.frag'' = None
 \<and> trace (main sample_env [''shaderc'', ''-f'', ''missing.frag'', ''-f'', ''tri.vert''])
     = [OpenFile ''tri.vert'', ReadFile ''tri.vert'',
        Compile ''void main(){}'' shaderc_glsl_infer_from_source ''shader''
          \<lparr>optimization_level = None\<rparr>,
        StdoutWrite [0x03, 0x02, 0x23, 0x07, 0x00, 0x00, 0x01, 0x00]]
 \<and> stderr_of (trace (main sample_env [''shaderc'', ''-f'', ''missing.frag'', ''-f'', ''tri.vert'']))
     = []
 \<and> exit_code (main sample_env [''shaderc'', ''-f'', ''missing.frag'', ''-f'', ''tri.vert'']) = 0
 \<and> open_file sample_env [] = None
 \<and> trace (main sample_env [''shaderc'', ''-f'', []])
     = [ReadStdin,
        Compile ''void main(){}'' shaderc_glsl_infer_from_source ''shader''
          \<lparr>optimization_level = None\<rparr>,
        StdoutWrite [0x03, 0x02, 0x23, 0x07, 0x00, 0x00, 0x01, 0x00]]
 \<and> exit_code (main sample_env [''shaderc'', ''-f'', []]) = 0"
  by (simp add: main_def compile_source_def sample_env_def default_options_def
      spirv_bytes_def word_bytes_def)

text \<open>
  Claim C4, amended. When the last path given with \<^verbatim>\<open>-f\<close> (by a \<^verbatim>\<open>-f\<close> that stands as a
  flag and is followed by a value) is not empty and the file does not open, standard error
  holds exactly the line \<^verbatim>\<open>Error: Could not open file: \<close> followed by the path, the exit
  code is 1, and the run ends there: the library is never called and standard output
  holds nothing.
\<close>

theorem main_open_failure:
  assumes "flag_values ''-f'' (drop 1 argv) \<noteq> []"
    and "last (flag_values ''-f'' (drop 1 argv)) = path"
    and "path \<noteq> []"
    and "open_file env path = None"
  shows "stderr_of (trace (main env argv)) = ''Error: Could not open file: '' @ path @ [newline]
       \<and> exit_code (main env argv) = 1
       \<and> filter is_Compile (trace (main env argv)) = []
       \<and> stdout_of (trace (main env argv)) = []"
proof -
  have "inputFile (parse_args (drop 1 argv) default_options) = path"
    using assms(1,2) by (simp add: inputFile_flag_values)
  with assms(3,4) show ?thesis
    by (auto simp: main_def Let_def stdout_of_cerr_line stderr_of_cerr_line is_Compile_cerr_line)
qed

theorem main_open_failure_witness:
  "flag_values ''-f''
     (drop 1 [''shaderc'', ''-f'', ''tri.vert'', ''-O'', ''-f'', ''missing.frag'', ''-f'']) \<noteq> []
 \<and> last (flag_values ''-f''
     (drop 1 [''shaderc'', ''-f'', ''tri.vert'', ''-O'', ''-f'', ''missing.frag'', ''-f'']))
     = ''missing.frag''
 \<and> ''missing.frag'' \<noteq> []
 \<and> open_file sample_env ''missing.frag'' = None
 \<and> stderr_of (trace (main sample_env
       [''shaderc'', ''-f'', ''tri.vert'', ''-O'', ''-f'', ''missing.frag'', ''-f'']))
     = ''Error: Could not open file: missing.frag'' @ [newline]
 \<and> exit_code (main sample_env
       [''shaderc'', ''-f'', ''tri.vert'', ''-O'', ''-f'', ''missing.frag'', ''-f'']) = 1
 \<and> filter is_Compile (trace (main sample_env
       [''shaderc'', ''-f'', ''tri.vert'', ''-O'', ''-f'', ''missing.frag'', ''-f''])) = []
 \<and> stdout_of (trace (main sample_env
       [''shaderc'', ''-f'', ''tri.vert'', ''-O'', ''-f'', ''missing.frag'', ''-f''])) = []"
proof -
  have given: "flag_values ''-f''
     (drop 1 [''shaderc'', ''-f'', ''tri.vert'', ''-O'', ''-f'', ''missing.frag'', ''-f'']) \<noteq> []"
    by (simp add: takes_value_def)
  have path: "last (flag_values ''-f''
     (drop 1 [''shaderc'', ''-f'', ''tri.vert'', ''-O'', ''-f'', ''missing.frag'', ''-f'']))
     = ''missing.frag''"
    by (simp add: takes_value_def)
  have nonempty: "''missing.frag'' \<noteq> []"
    by simp
  have closed: "open_file sample_env ''missing.frag'' = None"
    by (simp add: sample_env_def)
  show ?thesis
    using main_open_failure [OF given path nonempty closed] given path closed by simp
qed

section \<open>The stage mapping, characterised\<close>

text \<open>
  Claim C5. The token given with \<open>-t\<close> is mapped by \<open>getShaderKind\<close>: each of the six
  stage variants is the image of exactly one token (\<^verbatim>\<open>vertex\<close>, \<^verbatim>\<open>fragment\<close>,
  \<^verbatim>\<open>compute\<close>, \<^verbatim>\<open>geometry\<close>, \<^verbatim>\<open>tess_control\<close>, \<^verbatim>\<open>tess_evaluation\<close>), and a
  token is mapped to "infer from source" exactly when it is none of these six.
\<close>

theorem getShaderKind_exact:
  "(getShaderKind tok = shaderc_vertex_shader \<longleftrightarrow> tok = ''vertex'')
 \<and> (getShaderKind tok = shaderc_fragment_shader \<longleftrightarrow> tok = ''fragment'')
 \<and> (getShaderKind tok = shaderc_compute_shader \<longleftrightarrow> tok = ''compute'')
 \<and> (getShaderKind tok = shaderc_geometry_shader \<longleftrightarrow> tok = ''geometry'')
 \<and> (getShaderKind tok = shaderc_tess_control_shader \<longleftrightarrow> tok = ''tess_control'')
 \<and> (getShaderKind tok = shaderc_tess_evaluation_shader \<longleftrightarrow> tok = ''tess_evaluation'')
 \<and> (getShaderKind tok = shaderc_glsl_infer_from_source \<longleftrightarrow>
       tok \<notin> {''vertex'', ''fragment'', ''compute'', ''geometry'', ''tess_control'',
                ''tess_evaluation''})
 \<and> shaderKind (parse_args [''-t'', tok] opts) = getShaderKind tok"
  by (simp add: getShaderKind_def)

section \<open>What the library is called with\<close>

lemma flag_args_append:
  "\<not> value_pending pre \<Longrightarrow> flag_args (pre @ post) = flag_args pre @ flag_args post"
proof (induction pre rule: value_pending.induct)
  case 1
  then show ?case by simp
next
  case (2 a)
  then show ?case by (cases post) auto
next
  case (3 a v rest)
  then show ?case by (auto split: if_splits)
qed

lemma parse_args_skip:
  "x \<notin> {''-t'', ''-O'', ''-n'', ''-f''} \<Longrightarrow> parse_args (x # post) opts = parse_args post opts"
  by (cases post) auto

lemma parse_args_trailing:
  "f \<in> {''-t'', ''-n'', ''-f''} \<Longrightarrow> parse_args [f] opts = opts"
  by auto

lemma parse_args_O:
  "parse_args (''-O'' # xs) opts = parse_args xs (opts\<lparr>optimize := True\<rparr>)"
  by (cases xs) auto

lemma inputFile_update_outward:
  "opts\<lparr>inputFile := x, shaderKind := k\<rparr> = opts\<lparr>shaderKind := k, inputFile := x\<rparr>"
  "opts\<lparr>inputFile := x, optimize := b\<rparr> = opts\<lparr>optimize := b, inputFile := x\<rparr>"
  "opts\<lparr>inputFile := x, inputName := n\<rparr> = opts\<lparr>inputName := n, inputFile := x\<rparr>"
  by (cases opts; simp)+

lemma parse_args_inputFile_irrelevant:
  "(parse_args args (opts\<lparr>inputFile := x\<rparr>))\<lparr>inputFile := y\<rparr>
     = (parse_args args opts)\<lparr>inputFile := y\<rparr>"
proof (induction args arbitrary: opts x rule: flag_args.induct)
  case 1
  show ?case by simp
next
  case (2 a)
  show ?case by (simp add: inputFile_update_outward)
next
  case (3 a v rest)
  show ?case
  proof (cases "a = ''-f''")
    case True
    then show ?thesis
      by (simp add: takes_value_def)
  next
    case False
    with 3 show ?thesis
      by (simp add: takes_value_def inputFile_update_outward)
  qed
qed

lemma parse_args_without_f:
  "parse_args (without_flag ''-f'' args) opts = (parse_args args opts)\<lparr>inputFile := inputFile opts\<rparr>"
proof (induction args arbitrary: opts rule: flag_args.induct)
  case 1
  then show ?case by simp
next
  case (2 a)
  then show ?case by simp
next
  case (3 a v rest)
  show ?case
  proof (cases "takes_value a")
    case True
    with 3 show ?thesis
      by (auto simp: takes_value_def parse_args_inputFile_irrelevant)
  next
    case False
    with 3 show ?thesis
      by (cases "a = ''-O''") (auto simp: takes_value_def parse_args_O parse_args_skip)
  qed
qed

lemma flag_args_no_value:
  "\<not> takes_value a \<Longrightarrow> flag_args (a # xs) = a # flag_args xs"
  by (cases xs) auto

lemma flag_args_without_flag: "f \<notin> set (flag_args (without_flag f args))"
  by (induction f args rule: without_flag.induct) (auto simp: flag_args_no_value)

lemma Compile_in_compile_source:
  assumes "Compile src kind name copts \<in> set (trace (compile_source env opts tr s))"
    and "Compile src kind name copts \<notin> set tr"
  shows "src = s \<and> kind = shaderKind opts \<and> name = inputName opts
       \<and> copts = \<lparr>optimization_level =
            (if optimize opts then Some shaderc_optimization_level_performance else None)\<rparr>"
  using assms
  by (auto simp: compile_source_def Let_def Compile_notin_cerr_line split: if_splits)

lemma Compile_in_main:
  assumes "Compile src kind name copts \<in> set (trace (main env argv))"
  shows "kind = shaderKind (parse_args (drop 1 argv) default_options)
       \<and> name = inputName (parse_args (drop 1 argv) default_options)
       \<and> copts = \<lparr>optimization_level =
            (if optimize (parse_args (drop 1 argv) default_options)
             then Some shaderc_optimization_level_performance else None)\<rparr>
       \<and> (inputFile (parse_args (drop 1 argv) default_options) = [] \<longrightarrow> src = stdin_contents env)"
  using assms
  by (auto simp: main_def Let_def Compile_notin_cerr_line split: option.splits if_splits
      dest!: Compile_in_compile_source)

lemma main_stdin:
  "inputFile (parse_args (drop 1 argv) default_options) = [] \<Longrightarrow>
   main env argv
     = compile_source env (parse_args (drop 1 argv) default_options) [ReadStdin] (stdin_contents env)"
  by (simp add: main_def)

lemma is_OpenFile_cerr_line: "filter is_OpenFile (cerr_line parts) = []"
  by (induction parts) (auto simp: cerr_line_def)

lemma compile_source_stdin_trace:
  "take 1 (trace (compile_source env opts [ReadStdin] s)) = [ReadStdin]
 \<and> filter is_OpenFile (trace (compile_source env opts [ReadStdin] s)) = []
 \<and> take 27 (stderr_of (trace (compile_source env opts [ReadStdin] s)))
     \<noteq> ''Error: Could not open file:''"
  by (simp add: compile_source_def Let_def is_OpenFile_cerr_line stderr_of_cerr_line
      stderr_of_append)

section \<open>The optimization flag\<close>

text \<open>
  With the arguments \<^verbatim>\<open>-n -O\<close> the string \<^verbatim>\<open>-O\<close> is among the arguments, but it is
  consumed as the value of \<^verbatim>\<open>-n\<close>: the library is called with the name \<^verbatim>\<open>-O\<close> and
  with no optimization level.
\<close>

theorem optimize_flag_counterexample:
  "''-O'' \<in> set (drop 1 [''shaderc'', ''-n'', ''-O''])
 \<and> trace (main sample_env [''shaderc'', ''-n'', ''-O''])
     = [ReadStdin,
        Compile ''void main(){}'' shaderc_glsl_infer_from_source ''-O''
          \<lparr>optimization_level = None\<rparr>,
        StdoutWrite [0x03, 0x02, 0x23, 0x07, 0x00, 0x00, 0x01, 0x00]]"
  by (simp add: main_def compile_source_def sample_env_def default_options_def
      spirv_bytes_def word_bytes_def)

text \<open>
  Claim C6, amended. In every run that calls the library, the options of the call have
  the performance preset exactly when \<^verbatim>\<open>-O\<close> stands as a flag among the arguments, that
  is, when some \<^verbatim>\<open>-O\<close> is not consumed as the value of a preceding \<^verbatim>\<open>-t\<close>, \<^verbatim>\<open>-n\<close> or
  \<^verbatim>\<open>-f\<close>; otherwise, and so whenever no argument is \<^verbatim>\<open>-O\<close>, no optimization level is
  set.
\<close>

theorem main_optimization_level:
  assumes "Compile src kind name copts \<in> set (trace (main env argv))"
  shows "(optimization_level copts = Some shaderc_optimization_level_performance
            \<longleftrightarrow> ''-O'' \<in> set (flag_args (drop 1 argv)))
       \<and> (optimization_level copts = None \<longleftrightarrow> ''-O'' \<notin> set (flag_args (drop 1 argv)))
       \<and> (''-O'' \<notin> set (drop 1 argv) \<longrightarrow> optimization_level copts = None)"
proof -
  have "optimize (parse_args (drop 1 argv) default_options)
          \<longleftrightarrow> ''-O'' \<in> set (flag_args (drop 1 argv))"
    by (simp add: optimize_parse_args default_options_def)
  moreover have "''-O'' \<notin> set (drop 1 argv) \<Longrightarrow> ''-O'' \<notin> set (flag_args (drop 1 argv))"
    using set_flag_args [of "drop 1 argv"] by blast
  ultimately show ?thesis
    using Compile_in_main [OF assms] by auto
qed

theorem main_optimization_level_witness:
  "Compile ''void main(){}'' shaderc_glsl_infer_from_source ''shader''
     \<lparr>optimization_level = Some shaderc_optimization_level_performance\<rparr>
     \<in> set (trace (main sample_env [''shaderc'', ''-O'']))
 \<and> ''-O'' \<in> set (flag_args (drop 1 [''shaderc'', ''-O'']))
 \<and> Compile ''void main(){}'' shaderc_glsl_infer_from_source ''shader''
     \<lparr>optimization_level = None\<rparr>
     \<in> set (trace (main sample_env [''shaderc'', ''-t'', ''-O'']))
 \<and> ''-O'' \<notin> set (flag_args (drop 1 [''shaderc'', ''-t'', ''-O'']))
 \<and> Compile ''void main(){}'' shaderc_vertex_shader ''shader''
     \<lparr>optimization_level = None\<rparr>
     \<in> set (trace (main sample_env [''shaderc'', ''-t'', ''vertex'']))
 \<and> ''-O'' \<notin> set (drop 1 [''shaderc'', ''-t'', ''vertex''])"
proof -
  have on: "Compile ''void main(){}'' shaderc_glsl_infer_from_source ''shader''
     \<lparr>optimization_level = Some shaderc_optimization_level_performance\<rparr>
     \<in> set (trace (main sample_env [''shaderc'', ''-O'']))"
    by (simp add: main_def compile_source_def sample_env_def default_options_def)
  have swallowed: "Compile ''void main(){}'' shaderc_glsl_infer_from_source ''shader''
     \<lparr>optimization_level = None\<rparr>
     \<in> set (trace (main sample_env [''shaderc'', ''-t'', ''-O'']))"
    by (simp add: main_def compile_source_def sample_env_def default_options_def getShaderKind_def)
  have off: "Compile ''void main(){}'' shaderc_vertex_shader ''shader''
     \<lparr>optimization_level = None\<rparr>
     \<in> set (trace (main sample_env [''shaderc'', ''-t'', ''vertex'']))"
    by (simp add: main_def compile_source_def sample_env_def default_options_def getShaderKind_def)
  show ?thesis
    using main_optimization_level [OF on] main_optimization_level [OF swallowed]
      main_optimization_level [OF off] on swallowed off
    by simp
qed

section \<open>Defaults\<close>

text \<open>
  Claim C7. When no argument is \<^verbatim>\<open>-n\<close>, the name passed to the library is
  \<^verbatim>\<open>shader\<close>. When no argument is \<^verbatim>\<open>-f\<close>, the run starts by reading standard input to
  its end, opens no file, and the source passed to the library is all of standard input.
  When no argument is \<^verbatim>\<open>-t\<close>, the stage passed to the library is "infer from source".
\<close>

theorem main_defaults:
  "(''-n'' \<notin> set (drop 1 argv) \<longrightarrow>
      (\<forall>src kind name copts.
         Compile src kind name copts \<in> set (trace (main env argv)) \<longrightarrow> name = ''shader''))
 \<and> (''-f'' \<notin> set (drop 1 argv) \<longrightarrow>
      take 1 (trace (main env argv)) = [ReadStdin]
      \<and> filter is_OpenFile (trace (main env argv)) = []
      \<and> (\<forall>src kind name copts.
           Compile src kind name copts \<in> set (trace (main env argv)) \<longrightarrow>
           src = stdin_contents env))
 \<and> (''-t'' \<notin> set (drop 1 argv) \<longrightarrow>
      (\<forall>src kind name copts.
         Compile src kind name copts \<in> set (trace (main env argv)) \<longrightarrow>
         kind = shaderc_glsl_infer_from_source))"
proof -
  have n: "inputName (parse_args (drop 1 argv) default_options) = ''shader''"
    if "''-n'' \<notin> set (drop 1 argv)"
    using that set_flag_args [of "drop 1 argv"] inputName_parse_args [of "drop 1 argv" default_options]
    by (auto simp: default_options_def)
  have f: "inputFile (parse_args (drop 1 argv) default_options) = []"
    if "''-f'' \<notin> set (drop 1 argv)"
    using that set_flag_args [of "drop 1 argv"] inputFile_parse_args [of "drop 1 argv" default_options]
    by (auto simp: default_options_def)
  have t: "shaderKind (parse_args (drop 1 argv) default_options) = shaderc_glsl_infer_from_source"
    if "''-t'' \<notin> set (drop 1 argv)"
    using that set_flag_args [of "drop 1 argv"] shaderKind_parse_args [of "drop 1 argv" default_options]
    by (auto simp: default_options_def)
  show ?thesis
    using n f t Compile_in_main [of _ _ _ _ env argv]
      compile_source_stdin_trace [of env "parse_args (drop 1 argv) default_options"
        "stdin_contents env"]
    by (auto simp: main_stdin)
qed

theorem main_defaults_witness:
  "''-n'' \<notin> set (drop 1 [''shaderc'', ''-O''])
 \<and> ''-f'' \<notin> set (drop 1 [''shaderc'', ''-O''])
 \<and> ''-t'' \<notin> set (drop 1 [''shaderc'', ''-O''])
 \<and> Compile ''void main(){}'' shaderc_glsl_infer_from_source ''shader''
     \<lparr>optimization_level = Some shaderc_optimization_level_performance\<rparr>
     \<in> set (trace (main sample_env [''shaderc'', ''-O'']))
 \<and> take 1 (trace (main sample_env [''shaderc'', ''-O''])) = [ReadStdin]
 \<and> filter is_OpenFile (trace (main sample_env [''shaderc'', ''-O''])) = []
 \<and> ''void main(){}'' = stdin_contents sample_env"
proof -
  have run: "Compile ''void main(){}'' shaderc_glsl_infer_from_source ''shader''
     \<lparr>optimization_level = Some shaderc_optimization_level_performance\<rparr>
     \<in> set (trace (main sample_env [''shaderc'', ''-O'']))"
    by (simp add: main_def compile_source_def sample_env_def default_options_def)
  have absent: "''-n'' \<notin> set (drop 1 [''shaderc'', ''-O''])"
    "''-f'' \<notin> set (drop 1 [''shaderc'', ''-O''])" "''-t'' \<notin> set (drop 1 [''shaderc'', ''-O''])"
    by simp_all
  show ?thesis
    using main_defaults [of "[''shaderc'', ''-O'']" sample_env] run absent by blast
qed

section \<open>Arguments that are not flags\<close>

text \<open>
  Claim C8. An argument that is none of \<^verbatim>\<open>-t\<close>, \<^verbatim>\<open>-O\<close>, \<^verbatim>\<open>-n\<close>, \<^verbatim>\<open>-f\<close> and that is
  not consumed as the value of a flag (the arguments before it leave no value pending) is
  ignored: the options parsed are those parsed without it, and the whole run, with its
  effects, its diagnostics and its exit code, is the run without it.
\<close>

theorem unrecognized_argument_ignored:
  assumes "\<not> value_pending pre"
    and "x \<notin> {''-t'', ''-O'', ''-n'', ''-f''}"
  shows "parse_args (pre @ x # post) opts = parse_args (pre @ post) opts
       \<and> main env (a0 # pre @ x # post) = main env (a0 # pre @ post)"
proof -
  have same: "parse_args (pre @ x # post) opts' = parse_args (pre @ post) opts'" for opts'
  proof -
    have "parse_args (pre @ x # post) opts' = parse_args (x # post) (parse_args pre opts')"
      using assms(1) by (rule parse_args_append)
    also have "\<dots> = parse_args post (parse_args pre opts')"
      using assms(2) by (rule parse_args_skip)
    also have "\<dots> = parse_args (pre @ post) opts'"
      using assms(1) by (simp add: parse_args_append)
    finally show ?thesis .
  qed
  then show ?thesis
    by (simp add: main_def)
qed

theorem unrecognized_argument_ignored_witness:
  "\<not> value_pending [''-t'', ''vertex'']
 \<and> ''--verbose'' \<notin> {''-t'', ''-O'', ''-n'', ''-f''}
 \<and> parse_args ([''-t'', ''vertex''] @ ''--verbose'' # [''-O'']) default_options
     = parse_args ([''-t'', ''vertex''] @ [''-O'']) default_options
 \<and> main sample_env (''shaderc'' # [''-t'', ''vertex''] @ ''--verbose'' # [''-O''])
     = main sample_env (''shaderc'' # [''-t'', ''vertex''] @ [''-O''])
 \<and> exit_code (main sample_env (''shaderc'' # [''-t'', ''vertex''] @ ''--verbose'' # [''-O''])) = 0"
proof -
  have position: "\<not> value_pending [''-t'', ''vertex'']"
    by (simp add: takes_value_def)
  have unknown: "''--verbose'' \<notin> {''-t'', ''-O'', ''-n'', ''-f''}"
    by simp
  have "exit_code (main sample_env (''shaderc'' # [''-t'', ''vertex''] @ [''-O''])) = 0"
    by (simp add: main_def compile_source_def sample_env_def default_options_def getShaderKind_def)
  then show ?thesis
    using unrecognized_argument_ignored [OF position unknown, of "[''-O'']" default_options
        sample_env "''shaderc''"] position unknown
    by simp
qed

section \<open>An empty path\<close>

text \<open>
  A \<^verbatim>\<open>-f\<close> with the empty string as its path does not keep the driver from opening a
  file when a later \<^verbatim>\<open>-f\<close> gives a path: after it, \<^verbatim>\<open>-f tri.vert\<close> is opened and read
  where the arguments without any \<^verbatim>\<open>-f\<close> read standard input, and \<^verbatim>\<open>-f missing.frag\<close>
  is reported as a file that could not be opened.
\<close>

theorem empty_path_counterexample:
  "trace (main sample_env [''shaderc'', ''-f'', [], ''-f'', ''tri.vert''])
     = [OpenFile ''tri.vert'', ReadFile ''tri.vert'',
        Compile ''void main(){}'' shaderc_glsl_infer_from_source ''shader''
          \<lparr>optimization_level = None\<rparr>,
        StdoutWrite [0x03, 0x02, 0x23, 0x07, 0x00, 0x00, 0x01, 0x00]]
 \<and> trace (main sample_env [''shaderc''])
     = [ReadStdin,
        Compile ''void main(){}'' shaderc_glsl_infer_from_source ''shader''
          \<lparr>optimization_level = None\<rparr>,
        StdoutWrite [0x03, 0x02, 0x23, 0x07, 0x00, 0x00, 0x01, 0x00]]
 \<and> main sample_env [''shaderc'', ''-f'', [], ''-f'', ''tri.vert''] \<noteq> main sample_env [''shaderc'']
 \<and> stderr_of (trace (main sample_env [''shaderc'', ''-f'', [], ''-f'', ''missing.frag'']))
     = ''Error: Could not open file: missing.frag'' @ [newline]
 \<and> exit_code (main sample_env [''shaderc'', ''-f'', [], ''-f'', ''missing.frag'']) = 1"
  by (simp add: main_def compile_source_def sample_env_def default_options_def
      spirv_bytes_def word_bytes_def cerr_line_def)

text \<open>
  Claim C9, amended. When the last path given with \<^verbatim>\<open>-f\<close> (by a \<^verbatim>\<open>-f\<close> that stands as a
  flag and is followed by a value) is the empty string, the run starts by reading standard
  input, never opens a file, does not report a file that could not be opened, and the
  source passed to the library is all of standard input; the run is exactly the run of
  the arguments with every \<^verbatim>\<open>-f\<close> flag and its value omitted, in which no \<^verbatim>\<open>-f\<close>
  stands as a flag.
\<close>

theorem empty_path_reads_stdin:
  assumes "flag_values ''-f'' args \<noteq> []"
    and "last (flag_values ''-f'' args) = []"
  shows "take 1 (trace (main env (a0 # args))) = [ReadStdin]
       \<and> filter is_OpenFile (trace (main env (a0 # args))) = []
       \<and> take 27 (stderr_of (trace (main env (a0 # args)))) \<noteq> ''Error: Could not open file:''
       \<and> (\<forall>src kind name copts.
            Compile src kind name copts \<in> set (trace (main env (a0 # args)))
            \<longrightarrow> src = stdin_contents env)
       \<and> main env (a0 # args) = main env (a0 # without_flag ''-f'' args)
       \<and> ''-f'' \<notin> set (flag_args (without_flag ''-f'' args))"
proof -
  have empty: "inputFile (parse_args (drop 1 (a0 # args)) default_options) = []"
    using assms by (simp add: inputFile_flag_values)
  have "parse_args (without_flag ''-f'' args) default_options
      = (parse_args args default_options)\<lparr>inputFile := inputFile (parse_args args default_options)\<rparr>"
    using empty by (simp add: parse_args_without_f default_options_def)
  then have same: "parse_args (without_flag ''-f'' args) default_options
      = parse_args args default_options"
    by simp
  have omitted: "main env (a0 # args) = main env (a0 # without_flag ''-f'' args)"
    using same by (simp add: main_def)
  show ?thesis
    using omitted empty Compile_in_main [of _ _ _ _ env "a0 # args"]
      compile_source_stdin_trace [of env "parse_args (drop 1 (a0 # args)) default_options"
        "stdin_contents env"]
      main_stdin [OF empty, of env] flag_args_without_flag [of "''-f''" args]
    by auto
qed

theorem empty_path_reads_stdin_witness:
  "flag_values ''-f'' [''-f'', ''tri.vert'', ''-O'', ''-f'', [], ''-n'', ''tri''] \<noteq> []
 \<and> last (flag_values ''-f'' [''-f'', ''tri.vert'', ''-O'', ''-f'', [], ''-n'', ''tri'']) = []
 \<and> take 1 (trace (main sample_env
       (''shaderc'' # [''-f'', ''tri.vert'', ''-O'', ''-f'', [], ''-n'', ''tri''])))
     = [ReadStdin]
 \<and> filter is_OpenFile (trace (main sample_env
       (''shaderc'' # [''-f'', ''tri.vert'', ''-O'', ''-f'', [], ''-n'', ''tri'']))) = []
 \<and> take 27 (stderr_of (trace (main sample_env
       (''shaderc'' # [''-f'', ''tri.vert'', ''-O'', ''-f'', [], ''-n'', ''tri'']))))
     \<noteq> ''Error: Could not open file:''
 \<and> Compile ''void main(){}'' shaderc_glsl_infer_from_source ''tri''
     \<lparr>optimization_level = Some shaderc_optimization_level_performance\<rparr>
     \<in> set (trace (main sample_env
          (''shaderc'' # [''-f'', ''tri.vert'', ''-O'', ''-f'', [], ''-n'', ''tri''])))
 \<and> ''void main(){}'' = stdin_contents sample_env
 \<and> main sample_env (''shaderc'' # [''-f'', ''tri.vert'', ''-O'', ''-f'', [], ''-n'', ''tri''])
     = main sample_env [''shaderc'', ''-O'', ''-n'', ''tri'']"
proof -
  have given: "flag_values ''-f'' [''-f'', ''tri.vert'', ''-O'', ''-f'', [], ''-n'', ''tri''] \<noteq> []"
    by (simp add: takes_value_def)
  have empty: "last (flag_values ''-f'' [''-f'', ''tri.vert'', ''-O'', ''-f'', [], ''-n'', ''tri'']) = []"
    by (simp add: takes_value_def)
  have run: "Compile ''void main(){}'' shaderc_glsl_infer_from_source ''tri''
     \<lparr>optimization_level = Some shaderc_optimization_level_performance\<rparr>
     \<in> set (trace (main sample_env
          (''shaderc'' # [''-f'', ''tri.vert'', ''-O'', ''-f'', [], ''-n'', ''tri''])))"
    by (simp add: main_def compile_source_def sample_env_def default_options_def)
  have omitted: "without_flag ''-f'' [''-f'', ''tri.vert'', ''-O'', ''-f'', [], ''-n'', ''tri'']
      = [''-O'', ''-n'', ''tri'']"
    by (simp add: takes_value_def)
  note stdin = empty_path_reads_stdin [OF given empty, of sample_env "''shaderc''", unfolded omitted]
  from stdin run have source: "''void main(){}'' = stdin_contents sample_env"
    by blast
  show ?thesis
    using stdin given empty run source by blast
qed

section \<open>A trailing flag without a value\<close>

text \<open>
  With the arguments \<^verbatim>\<open>-n -t\<close> the last argument is \<^verbatim>\<open>-t\<close> and nothing follows it, but
  it is not ignored: it is consumed as the value of \<^verbatim>\<open>-n\<close>, and the library is called
  with the name \<^verbatim>\<open>-t\<close>, where the arguments without it give the name \<^verbatim>\<open>shader\<close>.
\<close>

theorem trailing_flag_counterexample:
  "last [''shaderc'', ''-n'', ''-t''] = ''-t''
 \<and> trace (main sample_env [''shaderc'', ''-n'', ''-t''])
     = [ReadStdin,
        Compile ''void main(){}'' shaderc_glsl_infer_from_source ''-t''
          \<lparr>optimization_level = None\<rparr>,
        StdoutWrite [0x03, 0x02, 0x23, 0x07, 0x00, 0x00, 0x01, 0x00]]
 \<and> trace (main sample_env [''shaderc'', ''-n''])
     = [ReadStdin,
        Compile ''void main(){}'' shaderc_glsl_infer_from_source ''shader''
          \<lparr>optimization_level = None\<rparr>,
        StdoutWrite [0x03, 0x02, 0x23, 0x07, 0x00, 0x00, 0x01, 0x00]]
 \<and> main sample_env [''shaderc'', ''-n'', ''-t''] \<noteq> main sample_env [''shaderc'', ''-n'']"
  by (simp add: main_def compile_source_def sample_env_def default_options_def
      spirv_bytes_def word_bytes_def)

text \<open>
  Claim C10, amended. When the last argument is one of \<^verbatim>\<open>-t\<close>, \<^verbatim>\<open>-n\<close>, \<^verbatim>\<open>-f\<close> and is
  not itself consumed as the value of the flag before it, it is ignored: the options
  parsed, and the whole run with its diagnostics and exit code, are those of the arguments
  without it. Every option keeps the value it had; the option of the trailing flag is at
  its default when that flag does not occur earlier.
\<close>

theorem trailing_flag_ignored:
  assumes "\<not> value_pending pre"
    and "f \<in> {''-t'', ''-n'', ''-f''}"
  shows "parse_args (pre @ [f]) opts = parse_args pre opts
       \<and> main env (a0 # pre @ [f]) = main env (a0 # pre)
       \<and> (f \<notin> set pre \<longrightarrow>
            (f = ''-t'' \<longrightarrow> shaderKind (parse_args (pre @ [f]) default_options)
                               = shaderc_glsl_infer_from_source)
          \<and> (f = ''-n'' \<longrightarrow> inputName (parse_args (pre @ [f]) default_options) = ''shader'')
          \<and> (f = ''-f'' \<longrightarrow> inputFile (parse_args (pre @ [f]) default_options) = []))"
proof -
  have same: "parse_args (pre @ [f]) opts' = parse_args pre opts'" for opts'
  proof -
    have "parse_args (pre @ [f]) opts' = parse_args [f] (parse_args pre opts')"
      using assms(1) by (rule parse_args_append)
    also have "\<dots> = parse_args pre opts'"
      using assms(2) by (rule parse_args_trailing)
    finally show ?thesis .
  qed
  have "shaderKind (parse_args pre default_options) = shaderc_glsl_infer_from_source"
    if "''-t'' \<notin> set pre"
    using that set_flag_args [of pre] shaderKind_parse_args [of pre default_options]
    by (auto simp: default_options_def)
  moreover have "inputName (parse_args pre default_options) = ''shader''"
    if "''-n'' \<notin> set pre"
    using that set_flag_args [of pre] inputName_parse_args [of pre default_options]
    by (auto simp: default_options_def)
  moreover have "inputFile (parse_args pre default_options) = []"
    if "''-f'' \<notin> set pre"
    using that set_flag_args [of pre] inputFile_parse_args [of pre default_options]
    by (auto simp: default_options_def)
  ultimately show ?thesis
    using same by (auto simp: main_def)
qed

theorem trailing_flag_ignored_witness:
  "\<not> value_pending [''-O'']
 \<and> ''-t'' \<in> {''-t'', ''-n'', ''-f''} \<and> ''-n'' \<in> {''-t'', ''-n'', ''-f''}
 \<and> ''-f'' \<in> {''-t'', ''-n'', ''-f''}
 \<and> ''-t'' \<notin> set [''-O''] \<and> ''-n'' \<notin> set [''-O''] \<and> ''-f'' \<notin> set [''-O'']
 \<and> parse_args ([''-O''] @ [''-t'']) default_options = parse_args [''-O''] default_options
 \<and> parse_args ([''-O''] @ [''-n'']) default_options = parse_args [''-O''] default_options
 \<and> parse_args ([''-O''] @ [''-f'']) default_options = parse_args [''-O''] default_options
 \<and> main sample_env (''shaderc'' # [''-O''] @ [''-t'']) = main sample_env (''shaderc'' # [''-O''])
 \<and> main sample_env (''shaderc'' # [''-O''] @ [''-n'']) = main sample_env (''shaderc'' # [''-O''])
 \<and> main sample_env (''shaderc'' # [''-O''] @ [''-f'']) = main sample_env (''shaderc'' # [''-O''])
 \<and> shaderKind (parse_args ([''-O''] @ [''-t'']) default_options) = shaderc_glsl_infer_from_source
 \<and> inputName (parse_args ([''-O''] @ [''-n'']) default_options) = ''shader''
 \<and> inputFile (parse_args ([''-O''] @ [''-f'']) default_options) = []"
proof -
  have position: "\<not> value_pending [''-O'']"
    by (simp add: takes_value_def)
  have t: "''-t'' \<in> {''-t'', ''-n'', ''-f''}" and n: "''-n'' \<in> {''-t'', ''-n'', ''-f''}"
    and f: "''-f'' \<in> {''-t'', ''-n'', ''-f''}"
    by simp_all
  have new: "''-t'' \<notin> set [''-O'']" "''-n'' \<notin> set [''-O'']" "''-f'' \<notin> set [''-O'']"
    by simp_all
  show ?thesis
    using trailing_flag_ignored [OF position t, of default_options sample_env "''shaderc''"]
      trailing_flag_ignored [OF position n, of default_options sample_env "''shaderc''"]
      trailing_flag_ignored [OF position f, of default_options sample_env "''shaderc''"]
      position t n f new
    by blast
qed

end
